theory Spec2Isabelle
  imports Complex_Main
begin

section \<open>Curved scrollbar: numbers, strings and component state\<close>

text \<open>
  The component \<open>CurvedScrollBar\<close> computes a C-shaped rail along the right edge of its
  container and reveals a short dash of it at the current scroll position.

  JavaScript numbers are modelled as the reals they approximate: \<open>+\<close>, \<open>-\<close>, \<open>*\<close>,
  \<open>/\<close>, \<open>Math.sqrt\<close> and \<open>Math.PI\<close> are the exact operations, \<open>1.1\<close> is \<open>11/10\<close>, and
  rounding, infinities and NaN are left out. Every divisor of the source is a constant
  other than zero (\<open>2\<close>, \<open>horizontalPosition = 1.1\<close>) or a scroll range guarded by
  \<open>> 0\<close>, so HOL's \<open>a / 0 = 0\<close> is never reached.

  A template literal \<open>`M ${px} ${py}`\<close> interpolates numbers through the language's own
  number-to-string conversion, which is not code of the component. A string is therefore a
  list of items, each a literal character or a number standing for its own rendering;
  every number renders to at least one character, so a string is empty exactly when the
  list is.
\<close>

datatype jchar = Ch char | Num real

type_synonym jstring = "jchar list"

definition lit :: "string \<Rightarrow> jstring" where
  "lit cs = map Ch cs"

record point =
  x :: real
  y :: real

record dimensions =
  width :: real
  height :: real

record spring_config =
  damping :: real
  stiffness :: real

record scrollbar_config =
  cornerRadius :: real
  edgePadding :: real
  horizontalPosition :: real
  visibleLength :: real
  animation :: spring_config
  inactiveOpacity :: real

definition SCROLLBAR_CONFIG :: scrollbar_config where
  "SCROLLBAR_CONFIG =
     \<lparr>cornerRadius = 12, edgePadding = 10, horizontalPosition = 1.1, visibleLength = 70,
      animation = \<lparr>damping = 30, stiffness = 500\<rparr>, inactiveOpacity = 0.3\<rparr>"

text \<open>
  \<open>withSpring(toValue, config)\<close> builds the description of a spring animation towards
  \<open>toValue\<close>. A shared value holds the number that worklets read and the animation last
  assigned to it; advancing the animation in time is the animation library's work.
\<close>

datatype spring_animation = withSpring real spring_config

fun toValue :: "spring_animation \<Rightarrow> real" where
  "toValue (withSpring v c) = v"

record shared_value =
  current :: real
  assigned :: "spring_animation option"

record component =
  containerDimensions :: dimensions
  contentHeight :: real
  scrollViewHeight :: real
  scrollProgress :: shared_value

record native_event =
  contentOffset :: point
  contentSize :: dimensions
  layoutMeasurement :: dimensions

record rail_geometry =
  railPath :: jstring
  points :: "point list"
  segmentLengths :: "real list"
  totalLength :: real

record mask_props =
  opacity :: real
  strokeDasharray :: jstring
  strokeDashoffset :: real

section \<open>Event handlers\<close>

definition handleContainerLayout :: "dimensions \<Rightarrow> component \<Rightarrow> component" where
  "handleContainerLayout layout s =
     s\<lparr>containerDimensions := \<lparr>width = width layout, height = height layout\<rparr>\<rparr>"

definition handleScroll :: "native_event \<Rightarrow> component \<Rightarrow> component" where
  "handleScroll ev s =
     (let maxScrollDistance = height (contentSize ev) - height (layoutMeasurement ev);
          progress = (if maxScrollDistance > 0 then y (contentOffset ev) / maxScrollDistance else 0)
      in s\<lparr>scrollProgress := (scrollProgress s)
            \<lparr>assigned := Some (withSpring (max 0 (min 1 progress))
               \<lparr>damping = damping (animation SCROLLBAR_CONFIG),
                stiffness = stiffness (animation SCROLLBAR_CONFIG)\<rparr>)\<rparr>\<rparr>)"

section \<open>Path calculation\<close>

text \<open>
  The first loop of \<open>calculateRailPath\<close>: \<open>for (i = 0; i < points.length - 1; i++)\<close>
  pushes the length of segment \<open>i\<close> and adds it to the running total.
\<close>

function segment_loop :: "real \<Rightarrow> point list \<Rightarrow> nat \<Rightarrow> real list \<times> real \<Rightarrow> real list \<times> real" where
  "segment_loop cr pts i (lens, totalLen) =
     (if i < length pts - 1 then
        (let len =
           (if i = 1 \<or> i = 3 then (pi * cr) / 2 + 2
            else (let dx = x (pts ! (i + 1)) - x (pts ! i);
                      dy = y (pts ! (i + 1)) - y (pts ! i)
                  in sqrt (dx * dx + dy * dy)))
         in segment_loop cr pts (i + 1) (lens @ [len], totalLen + len))
      else (lens, totalLen))"
  by pat_completeness auto
termination
  by (relation "measure (\<lambda>(cr, pts, i, acc). length pts - 1 - i)") auto

text \<open>
  The second loop: \<open>for (i = 1; i < points.length; i++)\<close> appends one command per point.
  The arc at \<open>i = 2\<close> ends in a space, the arc at \<open>i = 4\<close> does not.
\<close>

function path_loop :: "real \<Rightarrow> point list \<Rightarrow> nat \<Rightarrow> jstring \<Rightarrow> jstring" where
  "path_loop cr pts i path =
     (if i < length pts then
        path_loop cr pts (i + 1)
          (path @
            (if i = 2 then
               lit '' A '' @ [Num cr] @ lit '' '' @ [Num cr] @ lit '' 0 0 1 '' @
               [Num (x (pts ! i))] @ lit '' '' @ [Num (y (pts ! i))] @ lit '' ''
             else if i = 4 then
               lit '' A '' @ [Num cr] @ lit '' '' @ [Num cr] @ lit '' 0 0 1 '' @
               [Num (x (pts ! i))] @ lit '' '' @ [Num (y (pts ! i))]
             else
               lit '' L '' @ [Num (x (pts ! i))] @ lit '' '' @ [Num (y (pts ! i))]))
      else path)"
  by pat_completeness auto
termination
  by (relation "measure (\<lambda>(cr, pts, i, path). length pts - i)") auto

definition calculateRailPath :: "component \<Rightarrow> rail_geometry" where
  "calculateRailPath s =
     (if width (containerDimensions s) = 0 \<or> height (containerDimensions s) = 0 then
        \<lparr>railPath = [], points = [], segmentLengths = [], totalLength = 0\<rparr>
      else
        (let cr = cornerRadius SCROLLBAR_CONFIG;
             ep = edgePadding SCROLLBAR_CONFIG;
             hp = horizontalPosition SCROLLBAR_CONFIG;
             pts =
               [\<lparr>x = width (containerDimensions s) / hp, y = ep + cr\<rparr>,
                \<lparr>x = width (containerDimensions s) - ep - cr, y = ep + cr\<rparr>,
                \<lparr>x = width (containerDimensions s) - ep, y = ep + cr + cr\<rparr>,
                \<lparr>x = width (containerDimensions s) - ep,
                 y = height (containerDimensions s) - ep - cr - cr\<rparr>,
                \<lparr>x = width (containerDimensions s) - ep - cr,
                 y = height (containerDimensions s) - ep - cr\<rparr>,
                \<lparr>x = width (containerDimensions s) / hp,
                 y = height (containerDimensions s) - ep - cr\<rparr>];
             (lens, totalLen) = segment_loop cr pts 0 ([], 0);
             path = path_loop cr pts 1
                      (lit ''M '' @ [Num (x (pts ! 0))] @ lit '' '' @ [Num (y (pts ! 0))])
         in \<lparr>railPath = path, points = pts, segmentLengths = lens, totalLength = totalLen\<rparr>))"

section \<open>Animated properties\<close>

text \<open>
  The worklet reads the property \<open>showRail\<close>, the geometry computed at render, the two
  measured heights and the current value of \<open>scrollProgress\<close>.
\<close>

definition animatedMaskProps :: "bool \<Rightarrow> rail_geometry \<Rightarrow> component \<Rightarrow> mask_props" where
  "animatedMaskProps showRail railGeometry s =
     (if \<not> showRail \<or> contentHeight s \<le> scrollViewHeight s \<or> railPath railGeometry = [] then
        \<lparr>opacity = 0, strokeDasharray = lit ''0 1000'', strokeDashoffset = 0\<rparr>
      else
        (let progress = current (scrollProgress s);
             totalLen = totalLength railGeometry
         in if totalLen = 0 then
              \<lparr>opacity = 0, strokeDasharray = lit ''0 1000'', strokeDashoffset = 0\<rparr>
            else
              (let vl = visibleLength SCROLLBAR_CONFIG;
                   currentPosition = progress * totalLen;
                   dashArray = [Num vl] @ lit '' '' @ [Num totalLen];
                   dashOffset = - currentPosition + vl / 2
               in \<lparr>opacity = 1, strokeDasharray = dashArray, strokeDashoffset = dashOffset\<rparr>)))"

definition animatedContainerStyle :: "component \<Rightarrow> real" where
  "animatedContainerStyle s =
     (let isScrollable = contentHeight s > scrollViewHeight s
      in if isScrollable then 1 else inactiveOpacity SCROLLBAR_CONFIG)"

section \<open>Execution of the path calculation\<close>

text \<open>
  \<open>calculateRailPath\<close> above is the value the function computes. Its execution is given
  here statement by statement, as a relation between the component before the call and
  the returned geometry together with the component after the call. The store holds the
  component's state and the local variables \<open>points\<close>, \<open>segmentLengths\<close>, \<open>totalLength\<close>
  and \<open>railPath\<close>, which each call declares anew; \<open>push\<close> and \<open>+=\<close> are updates of the
  store. The two \<open>for\<close> loops are relations with one rule for leaving the loop and one for
  an iteration.
\<close>

record store =
  component_of :: component
  points_var :: "point list"
  segmentLengths_var :: "real list"
  totalLength_var :: real
  railPath_var :: jstring

inductive length_loop :: "real \<Rightarrow> nat \<Rightarrow> store \<Rightarrow> store \<Rightarrow> bool" where
  length_loop_exit:
    "\<not> i < length (points_var \<sigma>) - 1 \<Longrightarrow> length_loop cr i \<sigma> \<sigma>"
| length_loop_iter:
    "i < length (points_var \<sigma>) - 1 \<Longrightarrow>
     len = (if i = 1 \<or> i = 3 then (pi * cr) / 2 + 2
            else (let dx = x (points_var \<sigma> ! (i + 1)) - x (points_var \<sigma> ! i);
                      dy = y (points_var \<sigma> ! (i + 1)) - y (points_var \<sigma> ! i)
                  in sqrt (dx * dx + dy * dy))) \<Longrightarrow>
     length_loop cr (i + 1)
       (\<sigma>\<lparr>segmentLengths_var := segmentLengths_var \<sigma> @ [len],
          totalLength_var := totalLength_var \<sigma> + len\<rparr>) \<sigma>' \<Longrightarrow>
     length_loop cr i \<sigma> \<sigma>'"

inductive command_loop :: "real \<Rightarrow> nat \<Rightarrow> store \<Rightarrow> store \<Rightarrow> bool" where
  command_loop_exit:
    "\<not> i < length (points_var \<sigma>) \<Longrightarrow> command_loop cr i \<sigma> \<sigma>"
| command_loop_iter:
    "i < length (points_var \<sigma>) \<Longrightarrow>
     cmd = (if i = 2 then
              lit '' A '' @ [Num cr] @ lit '' '' @ [Num cr] @ lit '' 0 0 1 '' @
              [Num (x (points_var \<sigma> ! i))] @ lit '' '' @ [Num (y (points_var \<sigma> ! i))] @ lit '' ''
            else if i = 4 then
              lit '' A '' @ [Num cr] @ lit '' '' @ [Num cr] @ lit '' 0 0 1 '' @
              [Num (x (points_var \<sigma> ! i))] @ lit '' '' @ [Num (y (points_var \<sigma> ! i))]
            else
              lit '' L '' @ [Num (x (points_var \<sigma> ! i))] @ lit '' '' @ [Num (y (points_var \<sigma> ! i))]) \<Longrightarrow>
     command_loop cr (i + 1) (\<sigma>\<lparr>railPath_var := railPath_var \<sigma> @ cmd\<rparr>) \<sigma>' \<Longrightarrow>
     command_loop cr i \<sigma> \<sigma>'"

inductive calculateRailPath_exec :: "component \<Rightarrow> rail_geometry \<times> component \<Rightarrow> bool" where
  exec_unmeasured:
    "width (containerDimensions s) = 0 \<or> height (containerDimensions s) = 0 \<Longrightarrow>
     calculateRailPath_exec s
       (\<lparr>railPath = [], points = [], segmentLengths = [], totalLength = 0\<rparr>, s)"
| exec_measured:
    "\<not> (width (containerDimensions s) = 0 \<or> height (containerDimensions s) = 0) \<Longrightarrow>
     cr = cornerRadius SCROLLBAR_CONFIG \<Longrightarrow>
     ep = edgePadding SCROLLBAR_CONFIG \<Longrightarrow>
     hp = horizontalPosition SCROLLBAR_CONFIG \<Longrightarrow>
     \<sigma>0 =
       \<lparr>component_of = s,
        points_var =
          [\<lparr>x = width (containerDimensions s) / hp, y = ep + cr\<rparr>,
           \<lparr>x = width (containerDimensions s) - ep - cr, y = ep + cr\<rparr>,
           \<lparr>x = width (containerDimensions s) - ep, y = ep + cr + cr\<rparr>,
           \<lparr>x = width (containerDimensions s) - ep,
            y = height (containerDimensions s) - ep - cr - cr\<rparr>,
           \<lparr>x = width (containerDimensions s) - ep - cr,
            y = height (containerDimensions s) - ep - cr\<rparr>,
           \<lparr>x = width (containerDimensions s) / hp,
            y = height (containerDimensions s) - ep - cr\<rparr>],
        segmentLengths_var = [], totalLength_var = 0, railPath_var = []\<rparr> \<Longrightarrow>
     length_loop cr 0 \<sigma>0 \<sigma>1 \<Longrightarrow>
     \<sigma>2 = \<sigma>1\<lparr>railPath_var :=
             lit ''M '' @ [Num (x (points_var \<sigma>1 ! 0))] @ lit '' '' @
             [Num (y (points_var \<sigma>1 ! 0))]\<rparr> \<Longrightarrow>
     command_loop cr 1 \<sigma>2 \<sigma>3 \<Longrightarrow>
     calculateRailPath_exec s
       (\<lparr>railPath = railPath_var \<sigma>3, points = points_var \<sigma>3,
         segmentLengths = segmentLengths_var \<sigma>3, totalLength = totalLength_var \<sigma>3\<rparr>,
        component_of \<sigma>3)"

section \<open>Reading the results\<close>

text \<open>
  The straight-line distance between two points, against which the lengths of the
  straight segments are compared.
\<close>

definition euclidean_distance :: "point \<Rightarrow> point \<Rightarrow> real" where
  "euclidean_distance p q = sqrt ((x q - x p)\<^sup>2 + (y q - y p)\<^sup>2)"

text \<open>
  Path data is read as a sequence of tokens separated by spaces. A path command is a move,
  a line, or a circular arc \<open>A r r 0 large-arc-flag sweep-flag px py\<close>: both radii equal,
  no axis rotation. The large-arc flag 0 selects the minor arc, the sweep flag 1 the
  clockwise direction.
\<close>

fun tokens_from :: "jstring \<Rightarrow> jstring \<Rightarrow> jstring list" where
  "tokens_from word [] = (if word = [] then [] else [word])"
| "tokens_from word (c # cs) =
     (if c = Ch CHR '' '' then (if word = [] then tokens_from [] cs else word # tokens_from [] cs)
      else tokens_from (word @ [c]) cs)"

definition tokens :: "jstring \<Rightarrow> jstring list" where
  "tokens str = tokens_from [] str"

datatype path_command = MoveTo point | LineTo point | ArcTo real bool bool point

definition flag :: "bool \<Rightarrow> jstring" where
  "flag b = (if b then lit ''1'' else lit ''0'')"

fun command_tokens :: "path_command \<Rightarrow> jstring list" where
  "command_tokens (MoveTo p) = [lit ''M'', [Num (x p)], [Num (y p)]]"
| "command_tokens (LineTo p) = [lit ''L'', [Num (x p)], [Num (y p)]]"
| "command_tokens (ArcTo r large sweep p) =
     [lit ''A'', [Num r], [Num r], lit ''0'', flag large, flag sweep, [Num (x p)], [Num (y p)]]"

subsection \<open>Scenarios\<close>

text \<open>
  A component in the middle of a long page (content 2000 high in a scroll view 800 high,
  progress settled at one half) inside a container of the given size; the scroll event
  that leads there; a scroll event on content that exactly fits its scroll view; and a
  tablet in portrait whose content is shorter than the screen.
\<close>

definition mid_scroll :: "real \<Rightarrow> real \<Rightarrow> component" where
  "mid_scroll w h =
     \<lparr>containerDimensions = \<lparr>width = w, height = h\<rparr>, contentHeight = 2000,
      scrollViewHeight = 800, scrollProgress = \<lparr>current = 0.5, assigned = None\<rparr>\<rparr>"

definition mid_scroll_event :: native_event where
  "mid_scroll_event =
     \<lparr>contentOffset = \<lparr>x = 0, y = 600\<rparr>, contentSize = \<lparr>width = 300, height = 2000\<rparr>,
      layoutMeasurement = \<lparr>width = 300, height = 800\<rparr>\<rparr>"

definition fitting_content_event :: native_event where
  "fitting_content_event =
     \<lparr>contentOffset = \<lparr>x = 0, y = 50\<rparr>, contentSize = \<lparr>width = 300, height = 400\<rparr>,
      layoutMeasurement = \<lparr>width = 300, height = 400\<rparr>\<rparr>"

definition tablet :: component where
  "tablet =
     \<lparr>containerDimensions = \<lparr>width = 768, height = 1024\<rparr>, contentHeight = 500,
      scrollViewHeight = 1024, scrollProgress = \<lparr>current = 0, assigned = None\<rparr>\<rparr>"

section \<open>The geometry of a measured container\<close>

text \<open>
  Both loops run over the six points, so for a container with neither dimension zero the
  result can be written out. A straight segment is horizontal or vertical, hence its
  length is an absolute value.
\<close>

lemma calculateRailPath_measured:
  assumes "width (containerDimensions s) \<noteq> 0" and "height (containerDimensions s) \<noteq> 0"
  shows "calculateRailPath s =
    \<lparr>railPath =
       lit ''M '' @ [Num (width (containerDimensions s) / 1.1)] @ lit '' '' @ [Num 22] @
       lit '' L '' @ [Num (width (containerDimensions s) - 22)] @ lit '' '' @ [Num 22] @
       lit '' A '' @ [Num 12] @ lit '' '' @ [Num 12] @ lit '' 0 0 1 '' @
         [Num (width (containerDimensions s) - 10)] @ lit '' '' @ [Num 34] @ lit '' '' @
       lit '' L '' @ [Num (width (containerDimensions s) - 10)] @ lit '' '' @ [Num (height (containerDimensions s) - 34)] @
       lit '' A '' @ [Num 12] @ lit '' '' @ [Num 12] @ lit '' 0 0 1 '' @
         [Num (width (containerDimensions s) - 22)] @ lit '' '' @ [Num (height (containerDimensions s) - 22)] @
       lit '' L '' @ [Num (width (containerDimensions s) / 1.1)] @ lit '' '' @ [Num (height (containerDimensions s) - 22)],
     points =
       [\<lparr>x = width (containerDimensions s) / 1.1, y = 22\<rparr>,
        \<lparr>x = width (containerDimensions s) - 22, y = 22\<rparr>,
        \<lparr>x = width (containerDimensions s) - 10, y = 34\<rparr>,
        \<lparr>x = width (containerDimensions s) - 10, y = height (containerDimensions s) - 34\<rparr>,
        \<lparr>x = width (containerDimensions s) - 22, y = height (containerDimensions s) - 22\<rparr>,
        \<lparr>x = width (containerDimensions s) / 1.1, y = height (containerDimensions s) - 22\<rparr>],
     segmentLengths =
       [\<bar>width (containerDimensions s) / 11 - 22\<bar>, 6 * pi + 2, \<bar>height (containerDimensions s) - 68\<bar>, 6 * pi + 2, \<bar>width (containerDimensions s) / 11 - 22\<bar>],
     totalLength =
       \<bar>width (containerDimensions s) / 11 - 22\<bar> + (6 * pi + 2) + \<bar>height (containerDimensions s) - 68\<bar> + (6 * pi + 2) + \<bar>width (containerDimensions s) / 11 - 22\<bar>\<rparr>"
  using assms
  by (simp add: calculateRailPath_def SCROLLBAR_CONFIG_def Let_def lit_def abs_minus_commute)

lemma arc_length_positive: "(0::real) < 6 * pi + 2"
  by (simp add: add_pos_pos)

lemma mid_scroll_measured:
  "0 < width (containerDimensions (mid_scroll 300 600))"
  "0 < height (containerDimensions (mid_scroll 300 600))"
  by (simp_all add: mid_scroll_def)

section \<open>The six points\<close>

text \<open>
  C1. For a container of positive width and height, and the component's fixed
  configuration, the geometry has exactly six points, in the order of travel:
  \<open>P0 = (width / horizontalPosition, edgePadding + cornerRadius)\<close>,
  \<open>P1 = (width - edgePadding - cornerRadius, edgePadding + cornerRadius)\<close>,
  \<open>P2 = (width - edgePadding, edgePadding + 2 * cornerRadius)\<close>,
  \<open>P3 = (width - edgePadding, height - edgePadding - 2 * cornerRadius)\<close>,
  \<open>P4 = (width - edgePadding - cornerRadius, height - edgePadding - cornerRadius)\<close>,
  \<open>P5 = (width / horizontalPosition, height - edgePadding - cornerRadius)\<close>.
\<close>

theorem rail_points:
  assumes "0 < width (containerDimensions s)" and "0 < height (containerDimensions s)"
  shows "points (calculateRailPath s) =
    [\<lparr>x = width (containerDimensions s) / horizontalPosition SCROLLBAR_CONFIG,
      y = edgePadding SCROLLBAR_CONFIG + cornerRadius SCROLLBAR_CONFIG\<rparr>,
     \<lparr>x = width (containerDimensions s) - edgePadding SCROLLBAR_CONFIG - cornerRadius SCROLLBAR_CONFIG,
      y = edgePadding SCROLLBAR_CONFIG + cornerRadius SCROLLBAR_CONFIG\<rparr>,
     \<lparr>x = width (containerDimensions s) - edgePadding SCROLLBAR_CONFIG,
      y = edgePadding SCROLLBAR_CONFIG + 2 * cornerRadius SCROLLBAR_CONFIG\<rparr>,
     \<lparr>x = width (containerDimensions s) - edgePadding SCROLLBAR_CONFIG,
      y = height (containerDimensions s) - edgePadding SCROLLBAR_CONFIG - 2 * cornerRadius SCROLLBAR_CONFIG\<rparr>,
     \<lparr>x = width (containerDimensions s) - edgePadding SCROLLBAR_CONFIG - cornerRadius SCROLLBAR_CONFIG,
      y = height (containerDimensions s) - edgePadding SCROLLBAR_CONFIG - cornerRadius SCROLLBAR_CONFIG\<rparr>,
     \<lparr>x = width (containerDimensions s) / horizontalPosition SCROLLBAR_CONFIG,
      y = height (containerDimensions s) - edgePadding SCROLLBAR_CONFIG - cornerRadius SCROLLBAR_CONFIG\<rparr>]"
proof -
  have "width (containerDimensions s) \<noteq> 0" and "height (containerDimensions s) \<noteq> 0"
    using assms by simp_all
  then show ?thesis
    by (simp add: calculateRailPath_measured SCROLLBAR_CONFIG_def)
qed

theorem rail_points_witness:
  "0 < width (containerDimensions (mid_scroll 300 600)) \<and>
   0 < height (containerDimensions (mid_scroll 300 600)) \<and>
   points (calculateRailPath (mid_scroll 300 600)) =
     [\<lparr>x = 300 / 1.1, y = 22\<rparr>, \<lparr>x = 278, y = 22\<rparr>, \<lparr>x = 290, y = 34\<rparr>,
      \<lparr>x = 290, y = 566\<rparr>, \<lparr>x = 278, y = 578\<rparr>, \<lparr>x = 300 / 1.1, y = 578\<rparr>]"
  using mid_scroll_measured rail_points [OF mid_scroll_measured]
  by (simp add: mid_scroll_def SCROLLBAR_CONFIG_def)

section \<open>Segment lengths\<close>

text \<open>
  C2. For a container of positive width and height there are five segment lengths, one
  for each pair of consecutive points. The segments at indices 1 and 3 have length
  \<open>pi * cornerRadius / 2 + 2\<close>; the segments at indices 0, 2 and 4 have the Euclidean
  distance between their two end points as length.
\<close>

theorem segment_lengths_arcs_and_lines:
  assumes "0 < width (containerDimensions s)" and "0 < height (containerDimensions s)"
  shows "length (segmentLengths (calculateRailPath s)) = 5 \<and>
    segmentLengths (calculateRailPath s) ! 1 = pi * cornerRadius SCROLLBAR_CONFIG / 2 + 2 \<and>
    segmentLengths (calculateRailPath s) ! 3 = pi * cornerRadius SCROLLBAR_CONFIG / 2 + 2 \<and>
    segmentLengths (calculateRailPath s) ! 0 = euclidean_distance (points (calculateRailPath s) ! 0) (points (calculateRailPath s) ! 1) \<and>
    segmentLengths (calculateRailPath s) ! 2 = euclidean_distance (points (calculateRailPath s) ! 2) (points (calculateRailPath s) ! 3) \<and>
    segmentLengths (calculateRailPath s) ! 4 = euclidean_distance (points (calculateRailPath s) ! 4) (points (calculateRailPath s) ! 5)"
proof -
  have "width (containerDimensions s) \<noteq> 0" and "height (containerDimensions s) \<noteq> 0"
    using assms by simp_all
  then show ?thesis
    by (simp add: calculateRailPath_measured SCROLLBAR_CONFIG_def euclidean_distance_def
        abs_minus_commute)
qed

theorem segment_lengths_arcs_and_lines_witness:
  "0 < width (containerDimensions (mid_scroll 300 600)) \<and>
   0 < height (containerDimensions (mid_scroll 300 600)) \<and>
   length (segmentLengths (calculateRailPath (mid_scroll 300 600))) = 5 \<and>
   segmentLengths (calculateRailPath (mid_scroll 300 600)) ! 1 = 6 * pi + 2 \<and>
   segmentLengths (calculateRailPath (mid_scroll 300 600)) ! 3 = 6 * pi + 2 \<and>
   segmentLengths (calculateRailPath (mid_scroll 300 600)) ! 0 =
     euclidean_distance \<lparr>x = 300 / 1.1, y = 22\<rparr> \<lparr>x = 278, y = 22\<rparr> \<and>
   segmentLengths (calculateRailPath (mid_scroll 300 600)) ! 2 =
     euclidean_distance \<lparr>x = 290, y = 34\<rparr> \<lparr>x = 290, y = 566\<rparr> \<and>
   segmentLengths (calculateRailPath (mid_scroll 300 600)) ! 4 =
     euclidean_distance \<lparr>x = 278, y = 578\<rparr> \<lparr>x = 300 / 1.1, y = 578\<rparr>"
  using mid_scroll_measured segment_lengths_arcs_and_lines [OF mid_scroll_measured]
  by (simp add: calculateRailPath_measured mid_scroll_def SCROLLBAR_CONFIG_def)

section \<open>The visible indicator\<close>

text \<open>
  C3. When the rail is shown, the content is higher than the scroll view, the path is not
  empty and the total length is positive, then for every progress value the mask has
  opacity 1, the dash pattern "visibleLength totalLength" and the dash offset
  \<open>visibleLength / 2 - progress * totalLength\<close>. With the geometry fixed the offset is
  therefore affine in the progress with slope \<open>- totalLength\<close>, and strictly decreasing:
  a larger progress \<open>q\<close> gives a smaller offset than \<open>p\<close>.
\<close>

theorem visible_mask_props:
  assumes "showRail" and "contentHeight s > scrollViewHeight s"
    and "railPath g \<noteq> []" and "totalLength g > 0" and "p < q"
  shows "opacity (animatedMaskProps showRail g s) = 1 \<and>
    strokeDasharray (animatedMaskProps showRail g s) =
      [Num (visibleLength SCROLLBAR_CONFIG)] @ lit '' '' @ [Num (totalLength g)] \<and>
    strokeDashoffset (animatedMaskProps showRail g s) =
      visibleLength SCROLLBAR_CONFIG / 2 - current (scrollProgress s) * totalLength g \<and>
    strokeDashoffset
      (animatedMaskProps showRail g (s\<lparr>scrollProgress := (scrollProgress s)\<lparr>current := q\<rparr>\<rparr>)) <
    strokeDashoffset
      (animatedMaskProps showRail g (s\<lparr>scrollProgress := (scrollProgress s)\<lparr>current := p\<rparr>\<rparr>))"
  using assms by (simp add: animatedMaskProps_def Let_def)

theorem visible_mask_props_witness:
  "contentHeight (mid_scroll 300 600) > scrollViewHeight (mid_scroll 300 600) \<and>
   railPath (calculateRailPath (mid_scroll 300 600)) \<noteq> [] \<and>
   totalLength (calculateRailPath (mid_scroll 300 600)) > 0 \<and>
   (1/4 :: real) < 3/4 \<and>
   opacity (animatedMaskProps True (calculateRailPath (mid_scroll 300 600)) (mid_scroll 300 600)) = 1 \<and>
   strokeDasharray (animatedMaskProps True (calculateRailPath (mid_scroll 300 600)) (mid_scroll 300 600)) =
     [Num 70] @ lit '' '' @ [Num (totalLength (calculateRailPath (mid_scroll 300 600)))] \<and>
   strokeDashoffset (animatedMaskProps True (calculateRailPath (mid_scroll 300 600)) (mid_scroll 300 600)) =
     35 - totalLength (calculateRailPath (mid_scroll 300 600)) / 2 \<and>
   strokeDashoffset (animatedMaskProps True (calculateRailPath (mid_scroll 300 600))
      ((mid_scroll 300 600)
         \<lparr>scrollProgress := (scrollProgress (mid_scroll 300 600))\<lparr>current := 3/4\<rparr>\<rparr>)) <
   strokeDashoffset (animatedMaskProps True (calculateRailPath (mid_scroll 300 600))
      ((mid_scroll 300 600)
         \<lparr>scrollProgress := (scrollProgress (mid_scroll 300 600))\<lparr>current := 1/4\<rparr>\<rparr>))"
proof -
  have tall: "contentHeight (mid_scroll 300 600) > scrollViewHeight (mid_scroll 300 600)"
    by (simp add: mid_scroll_def)
  have path: "railPath (calculateRailPath (mid_scroll 300 600)) \<noteq> []"
    by (simp add: calculateRailPath_measured mid_scroll_def lit_def)
  have "(0::real) < 6012 / 11 + 12 * pi"
    using pi_gt_zero by linarith
  then have len: "totalLength (calculateRailPath (mid_scroll 300 600)) > 0"
    by (simp add: calculateRailPath_measured mid_scroll_def)
  have pq: "(1/4 :: real) < 3/4"
    by simp
  show ?thesis
    using tall path len pq
      visible_mask_props [of True "mid_scroll 300 600" "calculateRailPath (mid_scroll 300 600)" "1/4" "3/4", OF TrueI tall path len pq]
    by (simp add: SCROLLBAR_CONFIG_def mid_scroll_def)
qed

section \<open>The hidden indicator\<close>

text \<open>
  C4, as stated, asks for a gap that is at least any plausible total length. The gap of
  the hidden state is the constant 1000. On a tablet in portrait (768 by 1024) whose
  content is shorter than the screen, a hide condition holds, the dash pattern is
  "0 1000", and the rail of that very container is longer than 1000.
\<close>

theorem hidden_gap_below_total_length:
  "contentHeight tablet \<le> scrollViewHeight tablet \<and>
   opacity (animatedMaskProps True (calculateRailPath tablet) tablet) = 0 \<and>
   strokeDasharray (animatedMaskProps True (calculateRailPath tablet) tablet) = lit ''0 1000'' \<and>
   \<not> totalLength (calculateRailPath tablet) \<le> 1000"
proof -
  have "\<not> 11612 / 11 + 12 * pi \<le> 1000"
    using pi_gt_zero by linarith
  then show ?thesis
    by (simp add: calculateRailPath_measured tablet_def animatedMaskProps_def)
qed

text \<open>
  C4, amended. Whenever a hide condition holds (the rail is not shown, the content is
  not higher than the scroll view, the path is empty, or the total length is 0), the mask
  has opacity 0, dash offset 0 and the fixed dash pattern "0 1000": a visible length of 0
  and a gap of 1000, whatever the progress and whatever the total length.
\<close>

theorem hidden_mask_props:
  assumes "\<not> showRail \<or> contentHeight s \<le> scrollViewHeight s \<or> railPath g = [] \<or>
    totalLength g = 0"
  shows "animatedMaskProps showRail g s =
    \<lparr>opacity = 0, strokeDasharray = lit ''0 1000'', strokeDashoffset = 0\<rparr>"
  using assms by (auto simp add: animatedMaskProps_def Let_def)

theorem hidden_mask_props_witness:
  "contentHeight tablet \<le> scrollViewHeight tablet \<and>
   animatedMaskProps True (calculateRailPath tablet) tablet =
     \<lparr>opacity = 0, strokeDasharray = lit ''0 1000'', strokeDashoffset = 0\<rparr>"
proof -
  have short: "contentHeight tablet \<le> scrollViewHeight tablet"
    by (simp add: tablet_def)
  then have "\<not> True \<or> contentHeight tablet \<le> scrollViewHeight tablet \<or>
      railPath (calculateRailPath tablet) = [] \<or> totalLength (calculateRailPath tablet) = 0"
    by simp
  from hidden_mask_props [OF this] short show ?thesis
    by simp
qed

section \<open>Number, sign and sum of the segment lengths\<close>

text \<open>
  C5, as stated, asks for five positive lengths. In a container 68 high the points P2 and
  P3 coincide, and the vertical segment between them has length 0.
\<close>

theorem vertical_segment_of_length_zero:
  "0 < width (containerDimensions (mid_scroll 300 68)) \<and>
   0 < height (containerDimensions (mid_scroll 300 68)) \<and>
   points (calculateRailPath (mid_scroll 300 68)) ! 2 = \<lparr>x = 290, y = 34\<rparr> \<and>
   points (calculateRailPath (mid_scroll 300 68)) ! 3 = \<lparr>x = 290, y = 34\<rparr> \<and>
   \<not> 0 < segmentLengths (calculateRailPath (mid_scroll 300 68)) ! 2"
  by (simp add: calculateRailPath_measured mid_scroll_def)

text \<open>
  C5, amended. For a container of positive width and height there are exactly five
  segment lengths, none of them negative, and the total length is exactly their sum.
  All five are positive when the width is not 242 and the height is not 68.
\<close>

theorem segment_lengths_sum:
  assumes "0 < width (containerDimensions s)" and "0 < height (containerDimensions s)" and "i < 5"
  shows "length (segmentLengths (calculateRailPath s)) = 5 \<and>
    0 \<le> segmentLengths (calculateRailPath s) ! i \<and>
    (width (containerDimensions s) \<noteq> 242 \<and> height (containerDimensions s) \<noteq> 68 \<longrightarrow> 0 < segmentLengths (calculateRailPath s) ! i) \<and>
    totalLength (calculateRailPath s) = sum_list (segmentLengths (calculateRailPath s))"
proof -
  have nz: "width (containerDimensions s) \<noteq> 0" "height (containerDimensions s) \<noteq> 0"
    using assms by simp_all
  have "i = 0 \<or> i = 1 \<or> i = 2 \<or> i = 3 \<or> i = 4"
    using assms(3) by linarith
  then show ?thesis
    using nz arc_length_positive by (auto simp add: calculateRailPath_measured)
qed

theorem segment_lengths_sum_witness:
  "0 < width (containerDimensions (mid_scroll 300 600)) \<and>
   0 < height (containerDimensions (mid_scroll 300 600)) \<and>
   (2::nat) < 5 \<and>
   width (containerDimensions (mid_scroll 300 600)) \<noteq> 242 \<and>
   height (containerDimensions (mid_scroll 300 600)) \<noteq> 68 \<and>
   length (segmentLengths (calculateRailPath (mid_scroll 300 600))) = 5 \<and>
   0 < segmentLengths (calculateRailPath (mid_scroll 300 600)) ! 2 \<and>
   totalLength (calculateRailPath (mid_scroll 300 600)) = sum_list (segmentLengths (calculateRailPath (mid_scroll 300 600)))"
proof -
  have i: "(2::nat) < 5"
    by simp
  have w: "width (containerDimensions (mid_scroll 300 600)) \<noteq> 242"
    and h: "height (containerDimensions (mid_scroll 300 600)) \<noteq> 68"
    by (simp_all add: mid_scroll_def)
  from segment_lengths_sum [OF mid_scroll_measured i] mid_scroll_measured i w h
  show ?thesis
    by simp
qed

section \<open>The unmeasured container\<close>

text \<open>
  C6. When the container's width is 0 or its height is 0, \<open>calculateRailPath\<close> returns
  the empty geometry: no points, no segment lengths, total length 0 and the empty path.
  The function is total, so this case returns a value and raises nothing.
\<close>

theorem unmeasured_gives_empty_geometry:
  assumes "width (containerDimensions s) = 0 \<or> height (containerDimensions s) = 0"
  shows "calculateRailPath s =
           \<lparr>railPath = [], points = [], segmentLengths = [], totalLength = 0\<rparr>"
  using assms by (simp add: calculateRailPath_def)

theorem unmeasured_gives_empty_geometry_witness:
  "(width (containerDimensions (mid_scroll 0 600)) = 0 \<or>
    height (containerDimensions (mid_scroll 0 600)) = 0) \<and>
   calculateRailPath (mid_scroll 0 600) =
     \<lparr>railPath = [], points = [], segmentLengths = [], totalLength = 0\<rparr>"
proof -
  have unmeasured: "width (containerDimensions (mid_scroll 0 600)) = 0 \<or>
      height (containerDimensions (mid_scroll 0 600)) = 0"
    by (simp add: mid_scroll_def)
  from unmeasured_gives_empty_geometry [OF unmeasured] unmeasured show ?thesis
    by simp
qed

section \<open>Scroll progress\<close>

text \<open>
  C7. For every scroll event, whatever its offset (negative or beyond the scrollable
  range included), \<open>handleScroll\<close> assigns a spring animation whose target lies between 0
  and 1; and whenever the content height minus the scroll view's height is at most 0, the
  target is 0. No division by that difference takes place unless it is positive.
\<close>

theorem scroll_progress_clamped:
  "\<exists>a. assigned (scrollProgress (handleScroll ev s)) = Some a \<and>
     0 \<le> toValue a \<and> toValue a \<le> 1 \<and>
     (height (contentSize ev) - height (layoutMeasurement ev) \<le> 0 \<longrightarrow> toValue a = 0)"
  by (simp add: handleScroll_def Let_def)

theorem scroll_progress_clamped_witness:
  "height (contentSize fitting_content_event) - height (layoutMeasurement fitting_content_event) \<le> 0 \<and>
   assigned (scrollProgress (handleScroll fitting_content_event (mid_scroll 300 600))) =
     Some (withSpring 0 \<lparr>damping = 30, stiffness = 500\<rparr>)"
proof -
  have flat: "height (contentSize fitting_content_event) -
      height (layoutMeasurement fitting_content_event) \<le> 0"
    by (simp add: fitting_content_event_def)
  from scroll_progress_clamped [of fitting_content_event "mid_scroll 300 600"] flat
  obtain a where a: "assigned (scrollProgress (handleScroll fitting_content_event (mid_scroll 300 600))) = Some a"
    and zero: "toValue a = 0"
    by blast
  have "assigned (scrollProgress (handleScroll fitting_content_event (mid_scroll 300 600))) =
      Some (withSpring 0 \<lparr>damping = 30, stiffness = 500\<rparr>)"
    by (simp add: handleScroll_def fitting_content_event_def SCROLLBAR_CONFIG_def)
  with flat show ?thesis
    by simp
qed

section \<open>The path description\<close>

text \<open>
  C8. For a container of positive width and height the path description reads, token by
  token, as a move to P0 followed by one command for each further point: a line to P1, an
  arc to P2, a line to P3, an arc to P4 and a line to P5, where both arcs are circular with
  radius \<open>cornerRadius\<close>, minor (large-arc flag 0) and clockwise (sweep flag 1).
\<close>

theorem rail_path_commands:
  assumes "0 < width (containerDimensions s)" and "0 < height (containerDimensions s)"
  shows "tokens (railPath (calculateRailPath s)) =
    concat (map command_tokens
      [MoveTo (points (calculateRailPath s) ! 0),
       LineTo (points (calculateRailPath s) ! 1),
       ArcTo (cornerRadius SCROLLBAR_CONFIG) False True (points (calculateRailPath s) ! 2),
       LineTo (points (calculateRailPath s) ! 3),
       ArcTo (cornerRadius SCROLLBAR_CONFIG) False True (points (calculateRailPath s) ! 4),
       LineTo (points (calculateRailPath s) ! 5)])"
proof -
  have "width (containerDimensions s) \<noteq> 0" and "height (containerDimensions s) \<noteq> 0"
    using assms by simp_all
  then show ?thesis
    by (simp add: calculateRailPath_measured tokens_def lit_def flag_def SCROLLBAR_CONFIG_def)
qed

theorem rail_path_commands_witness:
  "0 < width (containerDimensions (mid_scroll 300 600)) \<and>
   0 < height (containerDimensions (mid_scroll 300 600)) \<and>
   tokens (railPath (calculateRailPath (mid_scroll 300 600))) =
     concat (map command_tokens
       [MoveTo \<lparr>x = 300 / 1.1, y = 22\<rparr>,
        LineTo \<lparr>x = 278, y = 22\<rparr>,
        ArcTo 12 False True \<lparr>x = 290, y = 34\<rparr>,
        LineTo \<lparr>x = 290, y = 566\<rparr>,
        ArcTo 12 False True \<lparr>x = 278, y = 578\<rparr>,
        LineTo \<lparr>x = 300 / 1.1, y = 578\<rparr>])"
  using mid_scroll_measured rail_path_commands [OF mid_scroll_measured]
  by (simp add: calculateRailPath_measured mid_scroll_def SCROLLBAR_CONFIG_def)

section \<open>Determinism\<close>

text \<open>
  Each loop relation relates a store to exactly one store: the one in which the local
  variables hold what the recursive functions compute, and everything else is as before.
\<close>

lemma length_loop_result:
  "length_loop cr i \<sigma> \<sigma>' \<Longrightarrow>
   \<sigma>' = \<sigma>\<lparr>segmentLengths_var :=
            fst (segment_loop cr (points_var \<sigma>) i (segmentLengths_var \<sigma>, totalLength_var \<sigma>)),
          totalLength_var :=
            snd (segment_loop cr (points_var \<sigma>) i (segmentLengths_var \<sigma>, totalLength_var \<sigma>))\<rparr>"
proof (induction rule: length_loop.induct)
  case (length_loop_exit i \<sigma> cr)
  then show ?case by simp
next
  case (length_loop_iter i \<sigma> len cr \<sigma>')
  then show ?case by (simp add: Let_def)
qed

lemma length_loop_runs:
  "length_loop cr i \<sigma>
     (\<sigma>\<lparr>segmentLengths_var :=
          fst (segment_loop cr (points_var \<sigma>) i (segmentLengths_var \<sigma>, totalLength_var \<sigma>)),
        totalLength_var :=
          snd (segment_loop cr (points_var \<sigma>) i (segmentLengths_var \<sigma>, totalLength_var \<sigma>))\<rparr>)"
proof (induction "length (points_var \<sigma>) - 1 - i" arbitrary: i \<sigma>)
  case 0
  then have "\<not> i < length (points_var \<sigma>) - 1" by simp
  then show ?case by (simp add: length_loop_exit)
next
  case (Suc n)
  then have lt: "i < length (points_var \<sigma>) - 1" by simp
  let ?len = "if i = 1 \<or> i = 3 then (pi * cr) / 2 + 2
            else (let dx = x (points_var \<sigma> ! (i + 1)) - x (points_var \<sigma> ! i);
                      dy = y (points_var \<sigma> ! (i + 1)) - y (points_var \<sigma> ! i)
                  in sqrt (dx * dx + dy * dy))"
  let ?\<sigma> = "\<sigma>\<lparr>segmentLengths_var := segmentLengths_var \<sigma> @ [?len],
          totalLength_var := totalLength_var \<sigma> + ?len\<rparr>"
  have "n = length (points_var ?\<sigma>) - 1 - (i + 1)" using Suc(2) by simp
  from Suc(1) [OF this] have "length_loop cr (i + 1) ?\<sigma>
     (?\<sigma>\<lparr>segmentLengths_var :=
          fst (segment_loop cr (points_var ?\<sigma>) (i + 1) (segmentLengths_var ?\<sigma>, totalLength_var ?\<sigma>)),
        totalLength_var :=
          snd (segment_loop cr (points_var ?\<sigma>) (i + 1) (segmentLengths_var ?\<sigma>, totalLength_var ?\<sigma>))\<rparr>)" .
  from length_loop_iter [OF lt refl this] lt show ?case
    by (simp add: Let_def)
qed


lemma command_loop_result:
  "command_loop cr i \<sigma> \<sigma>' \<Longrightarrow>
   \<sigma>' = \<sigma>\<lparr>railPath_var := path_loop cr (points_var \<sigma>) i (railPath_var \<sigma>)\<rparr>"
proof (induction rule: command_loop.induct)
  case (command_loop_exit i \<sigma> cr)
  then show ?case by simp
next
  case (command_loop_iter i \<sigma> cmd cr \<sigma>')
  then show ?case by simp
qed

lemma command_loop_runs:
  "command_loop cr i \<sigma> (\<sigma>\<lparr>railPath_var := path_loop cr (points_var \<sigma>) i (railPath_var \<sigma>)\<rparr>)"
proof (induction "length (points_var \<sigma>) - i" arbitrary: i \<sigma>)
  case 0
  then have "\<not> i < length (points_var \<sigma>)" by simp
  then show ?case by (simp add: command_loop_exit)
next
  case (Suc n)
  then have lt: "i < length (points_var \<sigma>)" by simp
  let ?cmd = "if i = 2 then
              lit '' A '' @ [Num cr] @ lit '' '' @ [Num cr] @ lit '' 0 0 1 '' @
              [Num (x (points_var \<sigma> ! i))] @ lit '' '' @ [Num (y (points_var \<sigma> ! i))] @ lit '' ''
            else if i = 4 then
              lit '' A '' @ [Num cr] @ lit '' '' @ [Num cr] @ lit '' 0 0 1 '' @
              [Num (x (points_var \<sigma> ! i))] @ lit '' '' @ [Num (y (points_var \<sigma> ! i))]
            else
              lit '' L '' @ [Num (x (points_var \<sigma> ! i))] @ lit '' '' @ [Num (y (points_var \<sigma> ! i))]"
  let ?\<sigma> = "\<sigma>\<lparr>railPath_var := railPath_var \<sigma> @ ?cmd\<rparr>"
  have "n = length (points_var ?\<sigma>) - (i + 1)" using Suc(2) by simp
  from Suc(1) [OF this] have "command_loop cr (i + 1) ?\<sigma>
     (?\<sigma>\<lparr>railPath_var := path_loop cr (points_var ?\<sigma>) (i + 1) (railPath_var ?\<sigma>)\<rparr>)" .
  from command_loop_iter [OF lt refl this] lt show ?case
    by simp
qed

lemma calculateRailPath_exec_result:
  "calculateRailPath_exec s r \<Longrightarrow> r = (calculateRailPath s, s)"
proof (induction rule: calculateRailPath_exec.induct)
  case (exec_unmeasured s)
  then show ?case by (simp add: calculateRailPath_def)
next
  case (exec_measured s cr ep hp \<sigma>0 \<sigma>1 \<sigma>2 \<sigma>3)
  from length_loop_result [OF exec_measured(6)] command_loop_result [OF exec_measured(8)]
    exec_measured(1-5,7)
  show ?case
    by (simp add: calculateRailPath_def Let_def split: prod.split)
qed

lemma calculateRailPath_exec_runs:
  "calculateRailPath_exec s (calculateRailPath s, s)"
proof (cases "width (containerDimensions s) = 0 \<or> height (containerDimensions s) = 0")
  case True
  from exec_unmeasured [OF True] obtain r where run: "calculateRailPath_exec s r"
    by blast
  from calculateRailPath_exec_result [OF run] run show ?thesis
    by simp
next
  case False
  from exec_measured [OF False refl refl refl refl length_loop_runs refl command_loop_runs]
  obtain r where run: "calculateRailPath_exec s r"
    by blast
  from calculateRailPath_exec_result [OF run] run show ?thesis
    by simp
qed

text \<open>
  C9. The execution of \<open>calculateRailPath\<close> is deterministic and free of side effects.
  Every call returns; it leaves the component as it found it; and any two calls, in the
  same component or in two components with the same container dimensions (whatever the
  rest of their state), return identical points, segment lengths, total length and path
  description.
\<close>

theorem calculateRailPath_deterministic:
  "(\<exists>g. calculateRailPath_exec s (g, s)) \<and>
   (\<forall>g1 t1 s2 g2 t2.
      calculateRailPath_exec s (g1, t1) \<and> calculateRailPath_exec s2 (g2, t2) \<and>
      containerDimensions s2 = containerDimensions s \<longrightarrow>
      points g1 = points g2 \<and> segmentLengths g1 = segmentLengths g2 \<and>
      totalLength g1 = totalLength g2 \<and> railPath g1 = railPath g2 \<and>
      t1 = s \<and> t2 = s2)"
proof (intro conjI allI impI)
  show "\<exists>g. calculateRailPath_exec s (g, s)"
    using calculateRailPath_exec_runs by blast
next
  fix g1 t1 s2 g2 t2
  assume a: "calculateRailPath_exec s (g1, t1) \<and> calculateRailPath_exec s2 (g2, t2) \<and>
      containerDimensions s2 = containerDimensions s"
  then have r1: "(g1, t1) = (calculateRailPath s, s)" and r2: "(g2, t2) = (calculateRailPath s2, s2)"
    by (blast dest: calculateRailPath_exec_result)+
  have "calculateRailPath s2 = calculateRailPath s"
    using a by (simp add: calculateRailPath_def)
  with r1 r2 show "points g1 = points g2" "segmentLengths g1 = segmentLengths g2"
    "totalLength g1 = totalLength g2" "railPath g1 = railPath g2" "t1 = s" "t2 = s2"
    by simp_all
qed

theorem calculateRailPath_deterministic_witness:
  "calculateRailPath_exec (mid_scroll 300 600) (calculateRailPath (mid_scroll 300 600), mid_scroll 300 600) \<and>
   calculateRailPath_exec (handleScroll mid_scroll_event (mid_scroll 300 600)) (calculateRailPath (handleScroll mid_scroll_event (mid_scroll 300 600)), handleScroll mid_scroll_event (mid_scroll 300 600)) \<and>
   containerDimensions (handleScroll mid_scroll_event (mid_scroll 300 600)) = containerDimensions (mid_scroll 300 600) \<and>
   points (calculateRailPath (mid_scroll 300 600)) = points (calculateRailPath (handleScroll mid_scroll_event (mid_scroll 300 600))) \<and>
   segmentLengths (calculateRailPath (mid_scroll 300 600)) = segmentLengths (calculateRailPath (handleScroll mid_scroll_event (mid_scroll 300 600))) \<and>
   totalLength (calculateRailPath (mid_scroll 300 600)) = totalLength (calculateRailPath (handleScroll mid_scroll_event (mid_scroll 300 600))) \<and>
   railPath (calculateRailPath (mid_scroll 300 600)) = railPath (calculateRailPath (handleScroll mid_scroll_event (mid_scroll 300 600)))"
proof -
  have first: "calculateRailPath_exec (mid_scroll 300 600) (calculateRailPath (mid_scroll 300 600), mid_scroll 300 600)"
    by (rule calculateRailPath_exec_runs)
  have second: "calculateRailPath_exec (handleScroll mid_scroll_event (mid_scroll 300 600)) (calculateRailPath (handleScroll mid_scroll_event (mid_scroll 300 600)), handleScroll mid_scroll_event (mid_scroll 300 600))"
    by (rule calculateRailPath_exec_runs)
  have same: "containerDimensions (handleScroll mid_scroll_event (mid_scroll 300 600)) = containerDimensions (mid_scroll 300 600)"
    by (simp add: handleScroll_def Let_def)
  from calculateRailPath_deterministic [of "mid_scroll 300 600"] first second same
  have "points (calculateRailPath (mid_scroll 300 600)) = points (calculateRailPath (handleScroll mid_scroll_event (mid_scroll 300 600))) \<and>
      segmentLengths (calculateRailPath (mid_scroll 300 600)) = segmentLengths (calculateRailPath (handleScroll mid_scroll_event (mid_scroll 300 600))) \<and>
      totalLength (calculateRailPath (mid_scroll 300 600)) = totalLength (calculateRailPath (handleScroll mid_scroll_event (mid_scroll 300 600))) \<and>
      railPath (calculateRailPath (mid_scroll 300 600)) = railPath (calculateRailPath (handleScroll mid_scroll_event (mid_scroll 300 600)))"
    by blast
  with first second same show ?thesis
    by blast
qed

section \<open>Mirror symmetry\<close>

text \<open>
  C10. For a container of positive width and height the rail is symmetric about the
  horizontal line \<open>y = height / 2\<close>: for each index \<open>i\<close> from 0 to 5 the points \<open>i\<close> and
  \<open>5 - i\<close> have the same x-coordinate and y-coordinates that add up to the height; and so
  segment 0 is as long as segment 4, and segment 1 as long as segment 3.
\<close>

theorem rail_mirror_symmetric:
  assumes "0 < width (containerDimensions s)" and "0 < height (containerDimensions s)" and "i < 6"
  shows "x (points (calculateRailPath s) ! i) = x (points (calculateRailPath s) ! (5 - i)) \<and>
    y (points (calculateRailPath s) ! i) + y (points (calculateRailPath s) ! (5 - i)) = height (containerDimensions s) \<and>
    segmentLengths (calculateRailPath s) ! 0 = segmentLengths (calculateRailPath s) ! 4 \<and>
    segmentLengths (calculateRailPath s) ! 1 = segmentLengths (calculateRailPath s) ! 3"
proof -
  have nz: "width (containerDimensions s) \<noteq> 0" "height (containerDimensions s) \<noteq> 0"
    using assms by simp_all
  have "i = 0 \<or> i = 1 \<or> i = 2 \<or> i = 3 \<or> i = 4 \<or> i = 5"
    using assms(3) by linarith
  then show ?thesis
    using nz by (auto simp add: calculateRailPath_measured)
qed

theorem rail_mirror_symmetric_witness:
  "0 < width (containerDimensions (mid_scroll 300 600)) \<and>
   0 < height (containerDimensions (mid_scroll 300 600)) \<and>
   (1::nat) < 6 \<and>
   x (points (calculateRailPath (mid_scroll 300 600)) ! 1) = x (points (calculateRailPath (mid_scroll 300 600)) ! 4) \<and>
   y (points (calculateRailPath (mid_scroll 300 600)) ! 1) + y (points (calculateRailPath (mid_scroll 300 600)) ! 4) = 600 \<and>
   segmentLengths (calculateRailPath (mid_scroll 300 600)) ! 0 = segmentLengths (calculateRailPath (mid_scroll 300 600)) ! 4 \<and>
   segmentLengths (calculateRailPath (mid_scroll 300 600)) ! 1 = segmentLengths (calculateRailPath (mid_scroll 300 600)) ! 3"
proof -
  have i: "(1::nat) < 6"
    by simp
  from rail_mirror_symmetric [OF mid_scroll_measured i] mid_scroll_measured show ?thesis
    by (simp add: mid_scroll_def)
qed

end
